theory Spec2Isabelle
  imports Complex_Main "HOL-Library.Stream"
begin

section \<open>The weather dashboard: synthetic series and summary statistics\<close>

text \<open>
  A shallow embedding of \<^verbatim>\<open>src/components/WeatherDashboard.tsx\<close>: the series generator
  inside \<^verbatim>\<open>fetchWeatherData\<close> and the three statistics derived from the \<^verbatim>\<open>data\<close> state.

  Conventions of the embedding:
  \<^item> a JavaScript \<^verbatim>\<open>number\<close> holding a year or an index is an \<open>int\<close> or a \<open>nat\<close>;
    a \<^verbatim>\<open>number\<close> holding a measurement is the \<open>real\<close> that the double denotes;
  \<^item> the generator and \<open>trend\<close> compute with exact reals (\<^verbatim>\<open>Math.sin\<close> has no
    specified rounding); \<open>average\<close>, whose bound depends on it, rounds the result of every
    addition and of the division to the nearest double, as IEEE 754 does;
  \<^item> \<^verbatim>\<open>selectedRegion\<close> and \<^verbatim>\<open>selectedParameter\<close> are strings, as in the component state;
  \<^item> \<^verbatim>\<open>Math.random\<close> is the only effect of the generator: the random source is the
    stream of the results of its successive calls, threaded through the callback;
  \<^item> \<^verbatim>\<open>new Date().getFullYear()\<close> is the parameter \<open>currentYear\<close>;
  \<^item> reading an array out of range gives \<^verbatim>\<open>undefined\<close>, which is \<open>None\<close>.
\<close>

subsection \<open>Data model\<close>

text \<open>The interface \<^verbatim>\<open>WeatherData\<close>; its field \<^verbatim>\<open>value\<close> is written \<open>value'\<close>.\<close>

record WeatherData =
  year :: int
  value' :: real
  region :: string
  parameter :: string

record region_entry =
  r_value :: string
  r_label :: string
  r_code :: string

record parameter_entry =
  p_value :: string
  p_label :: string
  p_description :: string
  p_unit :: string
  p_category :: string

definition regions :: "region_entry list" where
  "regions =
    [\<lparr>r_value = ''UK'', r_label = ''United Kingdom'', r_code = ''GB''\<rparr>,
     \<lparr>r_value = ''England'', r_label = ''England'', r_code = ''EN''\<rparr>,
     \<lparr>r_value = ''Wales'', r_label = ''Wales'', r_code = ''WA''\<rparr>,
     \<lparr>r_value = ''Scotland'', r_label = ''Scotland'', r_code = ''SC''\<rparr>,
     \<lparr>r_value = ''NorthernIreland'', r_label = ''Northern Ireland'', r_code = ''NI''\<rparr>]"

text \<open>The degree sign of the temperature unit is its two UTF-8 bytes.\<close>

definition parameters :: "parameter_entry list" where
  "parameters =
    [\<lparr>p_value = ''Tmax'', p_label = ''Maximum Temperature'',
      p_description = ''Daily maximum air temperature'',
      p_unit = [CHR 0xC2, CHR 0xB0, CHR ''C''], p_category = ''temperature''\<rparr>,
     \<lparr>p_value = ''Tmin'', p_label = ''Minimum Temperature'',
      p_description = ''Daily minimum air temperature'',
      p_unit = [CHR 0xC2, CHR 0xB0, CHR ''C''], p_category = ''temperature''\<rparr>,
     \<lparr>p_value = ''Tmean'', p_label = ''Mean Temperature'',
      p_description = ''Daily mean air temperature'',
      p_unit = [CHR 0xC2, CHR 0xB0, CHR ''C''], p_category = ''temperature''\<rparr>,
     \<lparr>p_value = ''Rainfall'', p_label = ''Rainfall'',
      p_description = ''Total precipitation accumulation'',
      p_unit = ''mm'', p_category = ''precipitation''\<rparr>,
     \<lparr>p_value = ''Sunshine'', p_label = ''Sunshine Hours'',
      p_description = ''Daily sunshine duration'',
      p_unit = ''hrs'', p_category = ''solar''\<rparr>]"

text \<open>A region or parameter is recognized when it is the \<^verbatim>\<open>value\<close> of a table entry.\<close>

definition recognizedRegion :: "string \<Rightarrow> bool" where
  "recognizedRegion r = List.member (map r_value regions) r"

definition recognizedParameter :: "string \<Rightarrow> bool" where
  "recognizedParameter p = List.member (map p_value parameters) p"

subsection \<open>The random source\<close>

text \<open>One call of \<^verbatim>\<open>Math.random()\<close>: the next result, and the source after the call.\<close>

definition Math_random :: "real stream \<Rightarrow> real \<times> real stream" where
  "Math_random s = (shd s, stl s)"

subsection \<open>The generator\<close>

text \<open>The four local variables that the \<^verbatim>\<open>switch\<close> assigns.\<close>

record components =
  baseValue :: real
  seasonalVariation :: real
  longTermTrend :: real
  randomNoise :: real

text \<open>
  The \<^verbatim>\<open>switch (selectedParameter)\<close> of the callback, case by case. Each of the five
  cases calls \<^verbatim>\<open>Math.random()\<close> once; the \<^verbatim>\<open>default\<close> case does not call it.
\<close>

definition switch_selectedParameter ::
  "string \<Rightarrow> string \<Rightarrow> nat \<Rightarrow> real \<Rightarrow> real stream \<Rightarrow> components \<times> real stream" where
  "switch_selectedParameter selectedParameter selectedRegion i yearProgress s =
    (if selectedParameter = ''Tmax'' then
       (let (rnd, s') = Math_random s in
        (\<lparr>baseValue = (if selectedRegion = ''Scotland'' then 13.2
                       else if selectedRegion = ''UK'' then 14.8 else 15.1),
          seasonalVariation = sin (real i * 0.15) * 1.2,
          longTermTrend = yearProgress * 1.8,
          randomNoise = (rnd - 0.5) * 1.5\<rparr>, s'))
     else if selectedParameter = ''Tmin'' then
       (let (rnd, s') = Math_random s in
        (\<lparr>baseValue = (if selectedRegion = ''Scotland'' then 4.1
                       else if selectedRegion = ''UK'' then 6.2 else 6.8),
          seasonalVariation = sin (real i * 0.18) * 0.9,
          longTermTrend = yearProgress * 1.5,
          randomNoise = (rnd - 0.5) * 1.2\<rparr>, s'))
     else if selectedParameter = ''Tmean'' then
       (let (rnd, s') = Math_random s in
        (\<lparr>baseValue = (if selectedRegion = ''Scotland'' then 8.7
                       else if selectedRegion = ''UK'' then 10.5 else 11.0),
          seasonalVariation = sin (real i * 0.16) * 1.0,
          longTermTrend = yearProgress * 1.6,
          randomNoise = (rnd - 0.5) * 1.0\<rparr>, s'))
     else if selectedParameter = ''Rainfall'' then
       (let (rnd, s') = Math_random s in
        (\<lparr>baseValue = (if selectedRegion = ''Wales'' then 1680
                       else if selectedRegion = ''Scotland'' then 1500 else 1154),
          seasonalVariation = sin (real i * 0.12) * 200,
          longTermTrend = yearProgress * 50,
          randomNoise = (rnd - 0.5) * 300\<rparr>, s'))
     else if selectedParameter = ''Sunshine'' then
       (let (rnd, s') = Math_random s in
        (\<lparr>baseValue = (if selectedRegion = ''Scotland'' then 1250
                       else if selectedRegion = ''England'' then 1550 else 1400),
          seasonalVariation = sin (real i * 0.14) * 150,
          longTermTrend = yearProgress * (- 20),
          randomNoise = (rnd - 0.5) * 200\<rparr>, s'))
     else
       (\<lparr>baseValue = 100, seasonalVariation = 0, longTermTrend = 0, randomNoise = 0\<rparr>, s))"

text \<open>
  The callback of \<^verbatim>\<open>Array.from\<close> at index \<open>i\<close>: the point of year \<open>baseYear + i\<close>,
  its value floored at zero by \<^verbatim>\<open>Math.max(0, ...)\<close>.
\<close>

definition mockPoint ::
  "string \<Rightarrow> string \<Rightarrow> int \<Rightarrow> int \<Rightarrow> nat \<Rightarrow> real stream \<Rightarrow> WeatherData \<times> real stream" where
  "mockPoint selectedRegion selectedParameter baseYear yearRange i s =
    (let year = baseYear + int i;
         yearProgress = real i / real_of_int yearRange;
         (c, s') = switch_selectedParameter selectedParameter selectedRegion i yearProgress s
     in (\<lparr>year = year,
          value' = max 0 (baseValue c + seasonalVariation c + longTermTrend c + randomNoise c),
          region = selectedRegion,
          parameter = selectedParameter\<rparr>, s'))"

text \<open>
  \<^verbatim>\<open>Array.from({ length: n }, f)\<close> calls \<open>f\<close> at the indices \<open>0, 1, ..., n - 1\<close> in this
  order. \<open>array_from f i k s\<close> is the rest of that loop at index \<open>i\<close> with \<open>k\<close> calls to go.
\<close>

fun array_from :: "(nat \<Rightarrow> 's \<Rightarrow> 'a \<times> 's) \<Rightarrow> nat \<Rightarrow> nat \<Rightarrow> 's \<Rightarrow> 'a list \<times> 's" where
  "array_from f i 0 s = ([], s)"
| "array_from f i (Suc k) s =
     (let (x, s') = f i s;
          (xs, s'') = array_from f (Suc i) k s'
      in (x # xs, s''))"

text \<open>
  The array \<^verbatim>\<open>mockData\<close> of \<^verbatim>\<open>fetchWeatherData\<close>, with the year bounds as parameters.
  A length that is not positive gives the empty array, hence \<open>nat\<close>.
\<close>

definition generate :: "string \<Rightarrow> string \<Rightarrow> int \<Rightarrow> int \<Rightarrow> real stream \<Rightarrow> WeatherData list" where
  "generate selectedRegion selectedParameter baseYear currentYear randomSource =
    (let yearRange = currentYear - baseYear
     in fst (array_from (mockPoint selectedRegion selectedParameter baseYear yearRange)
               0 (nat yearRange) randomSource))"

text \<open>The component fixes \<^verbatim>\<open>baseYear = 1884\<close> and stores the array with \<^verbatim>\<open>setData\<close>.\<close>

definition fetchWeatherData :: "int \<Rightarrow> string \<Rightarrow> string \<Rightarrow> real stream \<Rightarrow> WeatherData list" where
  "fetchWeatherData currentYear selectedRegion selectedParameter randomSource =
    generate selectedRegion selectedParameter 1884 currentYear randomSource"

subsection \<open>Double-precision results\<close>

text \<open>
  The nearest integer to a real, a tie going to the even neighbour.
\<close>

definition round_ties_even :: "real \<Rightarrow> int" where
  "round_ties_even x =
    (let f = \<lfloor>x\<rfloor>; r = x - of_int f
     in if r < 1/2 then f else if 1/2 < r then f + 1 else if even f then f else f + 1)"

text \<open>
  The binary exponent of a double near \<open>x\<close>: that of \<open>x\<close>, and \<open>-1022\<close> in the subnormal
  range.
\<close>

definition double_exponent :: "real \<Rightarrow> int" where
  "double_exponent x = max \<lfloor>log 2 \<bar>x\<bar>\<rfloor> (- 1022)"

text \<open>
  The double that an arithmetic operation returns for the exact result \<open>x\<close> (binary64,
  round to nearest, ties to even): \<open>x\<close> is rounded to a multiple of the spacing
  \<open>2 powi (e - 52)\<close> of the doubles at its exponent \<open>e\<close>. When the rounded magnitude reaches
  \<open>2 ^ 1024\<close> the operation returns an infinity; \<open>None\<close> stands for a result that is not
  a finite number.
\<close>

definition to_double :: "real \<Rightarrow> real option" where
  "to_double x =
    (if x = 0 then Some 0
     else let q = 2 powi (double_exponent x - 52);
              y = of_int (round_ties_even (x / q)) * q
          in if \<bar>y\<bar> < 2 ^ 1024 then Some y else None)"

text \<open>
  \<^verbatim>\<open>sum + d.value\<close> and \<^verbatim>\<open>sum / data.length\<close> on doubles. A sum that is not finite stays
  so when a finite number is added and when it is divided by a positive length.
\<close>

definition js_add :: "real option \<Rightarrow> real \<Rightarrow> real option" where
  "js_add acc v = (case acc of None \<Rightarrow> None | Some a \<Rightarrow> to_double (a + v))"

definition js_div :: "real option \<Rightarrow> real \<Rightarrow> real option" where
  "js_div acc n = (case acc of None \<Rightarrow> None | Some a \<Rightarrow> to_double (a / n))"

subsection \<open>Summary statistics\<close>

text \<open>\<^verbatim>\<open>data[k]\<close>: the element, or \<^verbatim>\<open>undefined\<close> when \<open>k\<close> is not an index of the array.\<close>

definition array_get :: "'a list \<Rightarrow> int \<Rightarrow> 'a option" where
  "array_get xs k = (if 0 \<le> k \<and> k < int (length xs) then Some (xs ! nat k) else None)"

definition latest :: "WeatherData list \<Rightarrow> WeatherData option" where
  "latest data = array_get data (int (length data) - 1)"

definition average :: "WeatherData list \<Rightarrow> real option" where
  "average data =
    (if length data > 0
     then js_div (foldl (\<lambda>sum d. js_add sum (value' d)) (Some 0) data) (real (length data))
     else Some 0)"

definition trend :: "WeatherData list \<Rightarrow> real" where
  "trend data =
    (if length data > 1
     then value' (data ! (length data - 1)) - value' (data ! 0)
     else 0)"

text \<open>
  The constant that the \<^verbatim>\<open>switch\<close> assigns to \<^verbatim>\<open>baseValue\<close> for a region and a
  parameter. It depends on neither the index nor the random source.
\<close>

definition baseline :: "string \<Rightarrow> string \<Rightarrow> real" where
  "baseline selectedRegion selectedParameter =
    baseValue (fst (switch_selectedParameter selectedParameter selectedRegion 0 0 (sconst 0)))"

text \<open>
  The constants of the five cases by parameter, as the design table of the specification
  lists them: the baseline of the final \<^verbatim>\<open>else\<close> of the region conditional, and the
  amplitude and frequency of the seasonal term, the slope of the trend and the amplitude
  of the noise. Outside the five cases they are those of \<^verbatim>\<open>default\<close>.
\<close>

definition elseBaseline :: "string \<Rightarrow> real" where
  "elseBaseline p =
    (if p = ''Tmax'' then 15.1 else if p = ''Tmin'' then 6.8 else if p = ''Tmean'' then 11.0
     else if p = ''Rainfall'' then 1154 else if p = ''Sunshine'' then 1400 else 100)"

definition seasonalAmplitude :: "string \<Rightarrow> real" where
  "seasonalAmplitude p =
    (if p = ''Tmax'' then 1.2 else if p = ''Tmin'' then 0.9 else if p = ''Tmean'' then 1.0
     else if p = ''Rainfall'' then 200 else if p = ''Sunshine'' then 150 else 0)"

definition seasonalFrequency :: "string \<Rightarrow> real" where
  "seasonalFrequency p =
    (if p = ''Tmax'' then 0.15 else if p = ''Tmin'' then 0.18 else if p = ''Tmean'' then 0.16
     else if p = ''Rainfall'' then 0.12 else if p = ''Sunshine'' then 0.14 else 0)"

definition trendSlope :: "string \<Rightarrow> real" where
  "trendSlope p =
    (if p = ''Tmax'' then 1.8 else if p = ''Tmin'' then 1.5 else if p = ''Tmean'' then 1.6
     else if p = ''Rainfall'' then 50 else if p = ''Sunshine'' then - 20 else 0)"

definition noiseAmplitude :: "string \<Rightarrow> real" where
  "noiseAmplitude p =
    (if p = ''Tmax'' then 1.5 else if p = ''Tmin'' then 1.2 else if p = ''Tmean'' then 1.0
     else if p = ''Rainfall'' then 300 else if p = ''Sunshine'' then 200 else 0)"

section \<open>The loop and the callback\<close>

text \<open>The step of the loop with the pair pattern replaced by projections.\<close>

lemma array_from_Suc:
  "array_from f i (Suc k) s =
     (fst (f i s) # fst (array_from f (Suc i) k (snd (f i s))),
      snd (array_from f (Suc i) k (snd (f i s))))"
  by (simp split: prod.splits)

lemma length_array_from: "length (fst (array_from f i k s)) = k"
  by (induction k arbitrary: i s) (simp_all add: array_from_Suc del: array_from.simps(2))

text \<open>
  What every call of the callback establishes for its own index holds of the array
  element at that position, wherever the loop starts and whatever the state is.
\<close>

lemma array_from_nth_prop:
  assumes "\<And>i s. P i (fst (f i s))"
  shows "j < k \<Longrightarrow> P (i + j) (fst (array_from f i k s) ! j)"
proof (induction k arbitrary: i j s)
  case 0
  then show ?case by simp
next
  case (Suc k)
  show ?case
  proof (cases j)
    case 0
    have "P i (fst (f i s))" by (rule assms)
    with 0 show ?thesis by (simp add: array_from_Suc del: array_from.simps(2))
  next
    case (Suc j')
    with Suc.prems have "j' < k" by simp
    then have "P (Suc i + j') (fst (array_from f (Suc i) k (snd (f i s))) ! j')"
      by (rule Suc.IH)
    with Suc show ?thesis by (simp add: array_from_Suc del: array_from.simps(2))
  qed
qed

lemma year_mockPoint: "year (fst (mockPoint r p b n i s)) = b + int i"
  by (simp add: mockPoint_def Let_def split: prod.splits)

lemma value_mockPoint_nonneg: "0 \<le> value' (fst (mockPoint r p b n i s))"
  by (simp add: mockPoint_def Let_def split: prod.splits)

text \<open>Outside the five cases the \<^verbatim>\<open>default\<close> branch runs and leaves the source untouched.\<close>

lemma switch_default:
  "\<not> recognizedParameter p \<Longrightarrow>
   switch_selectedParameter p r i yp s =
     (\<lparr>baseValue = 100, seasonalVariation = 0, longTermTrend = 0, randomNoise = 0\<rparr>, s)"
  by (simp add: switch_selectedParameter_def recognizedParameter_def parameters_def)

lemma mockPoint_default:
  "\<not> recognizedParameter p \<Longrightarrow>
   mockPoint r p b n i s = (\<lparr>year = b + int i, value' = 100, region = r, parameter = p\<rparr>, s)"
  by (simp add: mockPoint_def switch_default)


lemma recognizedParameter_cases:
  "recognizedParameter p \<longleftrightarrow>
     p = ''Tmax'' \<or> p = ''Tmin'' \<or> p = ''Tmean'' \<or> p = ''Rainfall'' \<or> p = ''Sunshine''"
  by (simp add: recognizedParameter_def parameters_def)

lemma recognizedRegion_cases:
  "recognizedRegion r \<longleftrightarrow>
     r = ''UK'' \<or> r = ''England'' \<or> r = ''Wales'' \<or> r = ''Scotland'' \<or> r = ''NorthernIreland''"
  by (simp add: recognizedRegion_def regions_def)

lemma generate_unfold:
  "generate r p b c s = fst (array_from (mockPoint r p b (c - b)) 0 (nat (c - b)) s)"
  by (simp add: generate_def Let_def)

text \<open>For an unrecognized parameter the whole array is known in closed form.\<close>

lemma generate_default:
  assumes "\<not> recognizedParameter p"
  shows "generate r p b c s =
    map (\<lambda>i. \<lparr>year = b + int i, value' = 100, region = r, parameter = p\<rparr>) [0..<nat (c - b)]"
proof (rule nth_equalityI)
  show "length (generate r p b c s) =
    length (map (\<lambda>i. \<lparr>year = b + int i, value' = 100, region = r, parameter = p\<rparr>) [0..<nat (c - b)])"
    by (simp add: generate_unfold length_array_from)
next
  fix j assume "j < length (generate r p b c s)"
  then have j: "j < nat (c - b)"
    by (simp add: generate_unfold length_array_from)
  have "fst (array_from (mockPoint r p b (c - b)) 0 (nat (c - b)) s) ! j =
        \<lparr>year = b + int (0 + j), value' = 100, region = r, parameter = p\<rparr>"
    by (rule array_from_nth_prop
          [where P = "\<lambda>i d. d = \<lparr>year = b + int i, value' = 100, region = r, parameter = p\<rparr>",
           OF _ j])
       (simp add: mockPoint_default assms)
  with j show "generate r p b c s ! j =
    map (\<lambda>i. \<lparr>year = b + int i, value' = 100, region = r, parameter = p\<rparr>) [0..<nat (c - b)] ! j"
    by (simp add: generate_unfold)
qed

lemma baseValue_baseline:
  "baseValue (fst (switch_selectedParameter p r i yp s)) = baseline r p"
  by (simp add: baseline_def switch_selectedParameter_def Math_random_def)

text \<open>Two callbacks that differ by a map on the element give arrays that differ by that map.\<close>

lemma array_from_map:
  assumes "\<And>i s. f i s = (g (fst (f' i s)), snd (f' i s))"
  shows "array_from f i k s = (map g (fst (array_from f' i k s)), snd (array_from f' i k s))"
proof (induction k arbitrary: i s)
  case 0
  show ?case by simp
next
  case (Suc k)
  have "f i s = (g (fst (f' i s)), snd (f' i s))" by (rule assms)
  with Suc.IH [of "Suc i" "snd (f' i s)"] show ?case
    by (simp add: array_from_Suc del: array_from.simps(2))
qed

text \<open>
  A region that is not in the table takes the final \<^verbatim>\<open>else\<close> of every region conditional,
  as \<open>NorthernIreland\<close> does; only the \<^verbatim>\<open>region\<close> field of the point differs.
\<close>

lemma switch_unrecognized_region:
  assumes "\<not> recognizedRegion r"
  shows "switch_selectedParameter p r i yp s =
         switch_selectedParameter p ''NorthernIreland'' i yp s"
  using assms by (simp add: recognizedRegion_cases switch_selectedParameter_def)

lemma mockPoint_unrecognized_region:
  assumes "\<not> recognizedRegion r"
  shows "mockPoint r p b n i s =
    ((fst (mockPoint ''NorthernIreland'' p b n i s))\<lparr>region := r\<rparr>,
     snd (mockPoint ''NorthernIreland'' p b n i s))"
  by (simp add: mockPoint_def Let_def switch_unrecognized_region [OF assms] split: prod.splits)

lemma generate_unrecognized_region:
  assumes "\<not> recognizedRegion r"
  shows "generate r p b c s = map (\<lambda>d. d\<lparr>region := r\<rparr>) (generate ''NorthernIreland'' p b c s)"
  unfolding generate_unfold
  by (simp add: array_from_map [where f' = "mockPoint ''NorthernIreland'' p b (c - b)"
                                  and g = "\<lambda>d. d\<lparr>region := r\<rparr>"]
                mockPoint_unrecognized_region [OF assms])

text \<open>When each call consumes one random number, element \<open>j\<close> sees the source after \<open>j\<close> calls.\<close>

lemma array_from_nth_stream:
  assumes "\<And>i s. snd (f i s) = stl s"
  shows "j < k \<Longrightarrow> fst (array_from f i k s) ! j = fst (f (i + j) (sdrop j s))"
proof (induction k arbitrary: i j s)
  case 0
  then show ?case by simp
next
  case (Suc k)
  show ?case
  proof (cases j)
    case 0
    then show ?thesis by (simp add: array_from_Suc del: array_from.simps(2))
  next
    case (Suc j')
    with Suc.prems have "j' < k" by simp
    then have "fst (array_from f (Suc i) k (snd (f i s))) ! j'
             = fst (f (Suc i + j') (sdrop j' (snd (f i s))))"
      by (rule Suc.IH)
    with Suc assms[of i s] show ?thesis
      by (simp add: array_from_Suc del: array_from.simps(2))
  qed
qed

text \<open>The callback in each of the five cases, for a region outside the table.\<close>

lemma snd_mockPoint_recognized:
  assumes "recognizedParameter p"
  shows "snd (mockPoint r p b n i s) = stl s"
proof -
  from assms consider "p = ''Tmax''" | "p = ''Tmin''" | "p = ''Tmean''"
    | "p = ''Rainfall''" | "p = ''Sunshine''"
    unfolding recognizedParameter_cases by blast
  then show ?thesis
    by cases (simp_all add: mockPoint_def switch_selectedParameter_def Math_random_def)
qed

lemma unrecognized_region_neq:
  assumes "\<not> recognizedRegion r"
  shows "r \<noteq> ''UK''" "r \<noteq> ''England''" "r \<noteq> ''Wales''" "r \<noteq> ''Scotland''"
  using assms by (simp_all add: recognizedRegion_cases)

lemma mockPoint_else_branch:
  assumes "\<not> recognizedRegion r" and "recognizedParameter p"
  shows "fst (mockPoint r p b n i s) =
    \<lparr>year = b + int i,
     value' = max 0 (elseBaseline p + sin (real i * seasonalFrequency p) * seasonalAmplitude p
                     + real i / real_of_int n * trendSlope p
                     + (shd s - 0.5) * noiseAmplitude p),
     region = r, parameter = p\<rparr>"
proof -
  note ne = unrecognized_region_neq [OF assms(1)]
  from assms(2) consider "p = ''Tmax''" | "p = ''Tmin''" | "p = ''Tmean''"
    | "p = ''Rainfall''" | "p = ''Sunshine''"
    unfolding recognizedParameter_cases by blast
  then show ?thesis
    by cases
      (simp_all add: ne mockPoint_def switch_selectedParameter_def Math_random_def
         elseBaseline_def seasonalAmplitude_def seasonalFrequency_def trendSlope_def
         noiseAmplitude_def)
qed

lemma baseline_else_branch:
  assumes "\<not> recognizedRegion r" and "recognizedParameter p"
  shows "baseline r p = elseBaseline p" and "baseline r p \<noteq> 100"
proof -
  note ne = unrecognized_region_neq [OF assms(1)]
  from assms(2) consider "p = ''Tmax''" | "p = ''Tmin''" | "p = ''Tmean''"
    | "p = ''Rainfall''" | "p = ''Sunshine''"
    unfolding recognizedParameter_cases by blast
  then show "baseline r p = elseBaseline p"
    by cases
      (simp_all add: ne baseline_def elseBaseline_def switch_selectedParameter_def
         Math_random_def)
  then show "baseline r p \<noteq> 100"
    using assms(2) by (auto simp: recognizedParameter_cases elseBaseline_def)
qed

section \<open>Properties of the generated series\<close>

text \<open>
  C2. When \<open>baseYear < currentYear\<close> the series has exactly \<open>currentYear - baseYear\<close>
  points, and point \<open>i\<close> has year \<open>baseYear + i\<close>: consecutive years in ascending order
  from \<open>baseYear\<close>, for every region, parameter and random source.
\<close>

theorem series_length_and_years:
  assumes "baseYear < currentYear"
  shows "int (length (generate r p baseYear currentYear s)) = currentYear - baseYear
       \<and> (\<forall>i < length (generate r p baseYear currentYear s).
            year (generate r p baseYear currentYear s ! i) = baseYear + int i)"
proof
  show "int (length (generate r p baseYear currentYear s)) = currentYear - baseYear"
    using assms by (simp add: generate_unfold length_array_from)
next
  show "\<forall>i < length (generate r p baseYear currentYear s).
          year (generate r p baseYear currentYear s ! i) = baseYear + int i"
  proof (intro allI impI)
    fix i assume "i < length (generate r p baseYear currentYear s)"
    then have i: "i < nat (currentYear - baseYear)"
      by (simp add: generate_unfold length_array_from)
    have "year (fst (array_from (mockPoint r p baseYear (currentYear - baseYear)) 0
                 (nat (currentYear - baseYear)) s) ! i) = baseYear + int (0 + i)"
      by (rule array_from_nth_prop [where P = "\<lambda>i d. year d = baseYear + int i", OF _ i])
         (rule year_mockPoint)
    then show "year (generate r p baseYear currentYear s ! i) = baseYear + int i"
      by (simp add: generate_unfold)
  qed
qed

theorem series_length_and_years_witness:
  "(1884::int) < 1886
   \<and> int (length (generate ''UK'' ''Tmax'' 1884 1886 (sconst 0.5))) = 2
   \<and> (1::nat) < length (generate ''UK'' ''Tmax'' 1884 1886 (sconst 0.5))
   \<and> year (generate ''UK'' ''Tmax'' 1884 1886 (sconst 0.5) ! 1) = 1885"
proof -
  have h: "(1884::int) < 1886" by simp
  note t = series_length_and_years [OF h, of "''UK''" "''Tmax''" "sconst 0.5"]
  from t have len: "length (generate ''UK'' ''Tmax'' 1884 1886 (sconst 0.5)) = 2"
    by simp
  with t have "year (generate ''UK'' ''Tmax'' 1884 1886 (sconst 0.5) ! 1) = 1884 + int 1"
    by simp
  with len show ?thesis by simp
qed

text \<open>
  C3. Every point of a generated series has a value that is at least 0, for every
  region, every parameter (recognized or not), every year range and every random source.
\<close>

theorem value_nonneg:
  "\<forall>d \<in> set (generate r p baseYear currentYear s). 0 \<le> value' d"
proof
  fix d assume "d \<in> set (generate r p baseYear currentYear s)"
  then obtain j where j: "j < nat (currentYear - baseYear)"
    and d: "d = fst (array_from (mockPoint r p baseYear (currentYear - baseYear)) 0
                 (nat (currentYear - baseYear)) s) ! j"
    by (auto simp: generate_unfold in_set_conv_nth length_array_from)
  have "0 \<le> value' (fst (array_from (mockPoint r p baseYear (currentYear - baseYear)) 0
                 (nat (currentYear - baseYear)) s) ! j)"
    by (rule array_from_nth_prop [where P = "\<lambda>i d. 0 \<le> value' d", OF _ j])
       (rule value_mockPoint_nonneg)
  with d show "0 \<le> value' d" by simp
qed

text \<open>A source whose result drives the sum below zero: the floor makes the value 0.\<close>

theorem value_nonneg_witness:
  "generate ''UK'' ''Tmax'' 1884 1885 (sconst (- 100)) =
     [\<lparr>year = 1884, value' = 0, region = ''UK'', parameter = ''Tmax''\<rparr>]
   \<and> \<lparr>year = 1884, value' = 0, region = ''UK'', parameter = ''Tmax''\<rparr>
       \<in> set (generate ''UK'' ''Tmax'' 1884 1885 (sconst (- 100)))
   \<and> 0 \<le> value' \<lparr>year = 1884, value' = 0, region = ''UK'', parameter = ''Tmax''\<rparr>"
proof -
  have g: "generate ''UK'' ''Tmax'' 1884 1885 (sconst (- 100)) =
     [\<lparr>year = 1884, value' = 0, region = ''UK'', parameter = ''Tmax''\<rparr>]"
    by (simp add: generate_def mockPoint_def switch_selectedParameter_def Math_random_def)
  with value_nonneg [of "''UK''" "''Tmax''" 1884 1885 "sconst (- 100)"]
  show ?thesis by simp
qed

text \<open>
  C5. Region UK, parameter Tmax, years 1884 to 1885 and a random source that always
  returns 0.5 give the single point of year 1884 and value 14.8.
\<close>

theorem uk_tmax_example:
  "generate ''UK'' ''Tmax'' 1884 1885 (sconst 0.5) =
     [\<lparr>year = 1884, value' = 14.8, region = ''UK'', parameter = ''Tmax''\<rparr>]"
  by (simp add: generate_def mockPoint_def switch_selectedParameter_def Math_random_def)

text \<open>
  C6. With the unrecognized parameter \<open>Humidity\<close> and a random source that always
  returns 0.5, every point of the series has the value 100, for every region and every
  year range.
\<close>

theorem humidity_all_100:
  "\<forall>d \<in> set (generate r ''Humidity'' baseYear currentYear (sconst 0.5)). value' d = 100"
proof -
  have "\<not> recognizedParameter ''Humidity''"
    by (simp add: recognizedParameter_def parameters_def)
  then show ?thesis
    by (simp add: generate_default)
qed

theorem humidity_all_100_witness:
  "generate ''Wales'' ''Humidity'' 1884 1886 (sconst 0.5) =
     [\<lparr>year = 1884, value' = 100, region = ''Wales'', parameter = ''Humidity''\<rparr>,
      \<lparr>year = 1885, value' = 100, region = ''Wales'', parameter = ''Humidity''\<rparr>]
   \<and> \<lparr>year = 1885, value' = 100, region = ''Wales'', parameter = ''Humidity''\<rparr>
       \<in> set (generate ''Wales'' ''Humidity'' 1884 1886 (sconst 0.5))
   \<and> value' \<lparr>year = 1885, value' = 100, region = ''Wales'', parameter = ''Humidity''\<rparr> = 100"
proof -
  have g: "generate ''Wales'' ''Humidity'' 1884 1886 (sconst 0.5) =
     [\<lparr>year = 1884, value' = 100, region = ''Wales'', parameter = ''Humidity''\<rparr>,
      \<lparr>year = 1885, value' = 100, region = ''Wales'', parameter = ''Humidity''\<rparr>]"
    by (simp add: generate_def mockPoint_def switch_selectedParameter_def numeral_2_eq_2)
  with humidity_all_100 [of "''Wales''" 1884 1886]
  show ?thesis by simp
qed

text \<open>
  C10. For an unrecognized parameter the series does not depend on the random source:
  two runs with the same region and years and any two random sources give the same
  series, and every value in it is 100.
\<close>

theorem unrecognized_parameter_ignores_random:
  assumes "\<not> recognizedParameter p"
  shows "generate r p baseYear currentYear s1 = generate r p baseYear currentYear s2
       \<and> (\<forall>d \<in> set (generate r p baseYear currentYear s1). value' d = 100)"
  using assms by (simp add: generate_default)

theorem unrecognized_parameter_ignores_random_witness:
  "\<not> recognizedParameter ''Humidity''
   \<and> generate ''UK'' ''Humidity'' 1884 1886 (sconst 0) =
     generate ''UK'' ''Humidity'' 1884 1886 (sconst 0.9)
   \<and> \<lparr>year = 1885, value' = 100, region = ''UK'', parameter = ''Humidity''\<rparr>
       \<in> set (generate ''UK'' ''Humidity'' 1884 1886 (sconst 0))
   \<and> value' \<lparr>year = 1885, value' = 100, region = ''UK'', parameter = ''Humidity''\<rparr> = 100"
proof -
  have h: "\<not> recognizedParameter ''Humidity''"
    by (simp add: recognizedParameter_def parameters_def)
  have g: "generate ''UK'' ''Humidity'' 1884 1886 (sconst 0) =
     [\<lparr>year = 1884, value' = 100, region = ''UK'', parameter = ''Humidity''\<rparr>,
      \<lparr>year = 1885, value' = 100, region = ''UK'', parameter = ''Humidity''\<rparr>]"
    by (simp add: generate_def mockPoint_def switch_selectedParameter_def numeral_2_eq_2)
  from h g unrecognized_parameter_ignores_random
    [OF h, of "''UK''" 1884 1886 "sconst 0" "sconst 0.9"]
  show ?thesis by simp
qed

text \<open>
  C1, as stated, fails: with the region \<open>Atlantis\<close>, which is not in the table, and the
  recognized parameter Tmax, the single point of 1884 has the value 15.1, not 100.
\<close>

theorem unrecognized_region_counterexample:
  "\<not> recognizedRegion ''Atlantis'' \<and> recognizedParameter ''Tmax''
   \<and> generate ''Atlantis'' ''Tmax'' 1884 1885 (sconst 0.5) =
       [\<lparr>year = 1884, value' = 15.1, region = ''Atlantis'', parameter = ''Tmax''\<rparr>]
   \<and> (15.1::real) \<noteq> 100"
  by (simp add: recognizedRegion_def regions_def recognizedParameter_def parameters_def
        generate_def mockPoint_def switch_selectedParameter_def Math_random_def)

text \<open>
  C1, amended. For an unrecognized region and a recognized parameter the generator does
  not use the neutral default. Point \<open>i\<close> has the value
  \<open>max 0 (baseline + sin (i * frequency) * amplitude + i / yearRange * slope + (random i - 0.5) * noise)\<close>
  with the parameter's own constants, the baseline being that of the final \<^verbatim>\<open>else\<close> of its
  region conditional (15.1 for Tmax, 6.8 for Tmin, 11.0 for Tmean, 1154 for Rainfall,
  1400 for Sunshine, never 100). The series is the one generated for \<open>NorthernIreland\<close>
  from the same random source, under the given region name.
\<close>

theorem unrecognized_region_uses_else_branch:
  assumes "\<not> recognizedRegion r" and "recognizedParameter p"
    and "i < nat (currentYear - baseYear)"
  shows "generate r p baseYear currentYear s ! i =
           \<lparr>year = baseYear + int i,
            value' = max 0
              (elseBaseline p + sin (real i * seasonalFrequency p) * seasonalAmplitude p
               + real i / real_of_int (currentYear - baseYear) * trendSlope p
               + (s !! i - 0.5) * noiseAmplitude p),
            region = r, parameter = p\<rparr>
       \<and> baseline r p = elseBaseline p \<and> baseline r p \<noteq> 100
       \<and> generate r p baseYear currentYear s =
           map (\<lambda>d. d\<lparr>region := r\<rparr>) (generate ''NorthernIreland'' p baseYear currentYear s)"
proof (intro conjI)
  have "fst (array_from (mockPoint r p baseYear (currentYear - baseYear)) 0
              (nat (currentYear - baseYear)) s) ! i
        = fst (mockPoint r p baseYear (currentYear - baseYear) (0 + i) (sdrop i s))"
    by (rule array_from_nth_stream [OF _ assms(3)])
       (rule snd_mockPoint_recognized [OF assms(2)])
  then show "generate r p baseYear currentYear s ! i =
           \<lparr>year = baseYear + int i,
            value' = max 0
              (elseBaseline p + sin (real i * seasonalFrequency p) * seasonalAmplitude p
               + real i / real_of_int (currentYear - baseYear) * trendSlope p
               + (s !! i - 0.5) * noiseAmplitude p),
            region = r, parameter = p\<rparr>"
    by (simp add: generate_unfold mockPoint_else_branch [OF assms(1,2)])
next
  show "baseline r p = elseBaseline p"
    using assms(1,2) by (rule baseline_else_branch)
next
  show "baseline r p \<noteq> 100"
    using assms(1,2) by (rule baseline_else_branch)
next
  show "generate r p baseYear currentYear s =
           map (\<lambda>d. d\<lparr>region := r\<rparr>) (generate ''NorthernIreland'' p baseYear currentYear s)"
    using assms(1) by (rule generate_unrecognized_region)
qed

theorem unrecognized_region_uses_else_branch_witness:
  "\<not> recognizedRegion ''Atlantis'' \<and> recognizedParameter ''Tmax''
   \<and> (1::nat) < nat (1886 - 1884)
   \<and> generate ''Atlantis'' ''Tmax'' 1884 1886 (0.5 ## sconst 0.7) ! 1 =
       \<lparr>year = 1885, value' = max 0 (15.1 + sin 0.15 * 1.2 + 0.9 + 0.3),
        region = ''Atlantis'', parameter = ''Tmax''\<rparr>
   \<and> baseline ''Atlantis'' ''Tmax'' = 15.1
   \<and> generate ''Atlantis'' ''Tmax'' 1884 1886 (0.5 ## sconst 0.7) =
       map (\<lambda>d. d\<lparr>region := ''Atlantis''\<rparr>)
         (generate ''NorthernIreland'' ''Tmax'' 1884 1886 (0.5 ## sconst 0.7))"
proof -
  have h1: "\<not> recognizedRegion ''Atlantis''"
    by (simp add: recognizedRegion_def regions_def)
  have h2: "recognizedParameter ''Tmax''"
    by (simp add: recognizedParameter_def parameters_def)
  have h3: "(1::nat) < nat (1886 - 1884)" by simp
  note t = unrecognized_region_uses_else_branch [OF h1 h2 h3, of "0.5 ## sconst 0.7"]
  from t [THEN conjunct1]
  have a: "generate ''Atlantis'' ''Tmax'' 1884 1886 (0.5 ## sconst 0.7) ! 1 =
       \<lparr>year = 1885, value' = max 0 (15.1 + sin 0.15 * 1.2 + 0.9 + 0.3),
        region = ''Atlantis'', parameter = ''Tmax''\<rparr>"
    by (simp add: elseBaseline_def seasonalAmplitude_def seasonalFrequency_def
          trendSlope_def noiseAmplitude_def)
  from t [THEN conjunct2, THEN conjunct1]
  have b: "baseline ''Atlantis'' ''Tmax'' = 15.1"
    by (simp add: elseBaseline_def)
  from h1 h2 h3 a b t show ?thesis
    by blast
qed

text \<open>
  C4, as stated, fails: England and Wales are two table regions other than Scotland, and
  for Tmax both get 15.1, not 14.8. At most one of them can be the single alternative
  region of the table.
\<close>

theorem default_baseline_counterexample:
  "recognizedRegion ''England'' \<and> recognizedRegion ''Wales''
   \<and> baseline ''England'' ''Tmax'' = 15.1 \<and> baseline ''Wales'' ''Tmax'' = 15.1
   \<and> (15.1::real) \<noteq> 14.8"
  by (simp add: recognizedRegion_def regions_def baseline_def
        switch_selectedParameter_def Math_random_def)

text \<open>
  C4, amended. Every region that the parameter's conditional does not name gets the
  constant of its final \<^verbatim>\<open>else\<close>: 15.1, 6.8 and 11.0 for Tmax, Tmin and Tmean (the named
  regions are Scotland and UK), 1154 for Rainfall (named: Wales, Scotland) and 1400 for
  Sunshine (named: Scotland, England). The constants 14.8, 6.2 and 10.5 are those of UK.
\<close>

theorem baseline_without_explicit_case:
  "(r \<noteq> ''Scotland'' \<and> r \<noteq> ''UK'' \<longrightarrow>
      baseline r ''Tmax'' = 15.1 \<and> baseline r ''Tmin'' = 6.8 \<and> baseline r ''Tmean'' = 11.0)
   \<and> (r \<noteq> ''Wales'' \<and> r \<noteq> ''Scotland'' \<longrightarrow> baseline r ''Rainfall'' = 1154)
   \<and> (r \<noteq> ''Scotland'' \<and> r \<noteq> ''England'' \<longrightarrow> baseline r ''Sunshine'' = 1400)
   \<and> baseline ''UK'' ''Tmax'' = 14.8 \<and> baseline ''UK'' ''Tmin'' = 6.2
   \<and> baseline ''UK'' ''Tmean'' = 10.5
   \<and> baseline ''Scotland'' ''Tmax'' = 13.2 \<and> baseline ''Scotland'' ''Tmin'' = 4.1
   \<and> baseline ''Scotland'' ''Tmean'' = 8.7
   \<and> baseline ''Wales'' ''Rainfall'' = 1680 \<and> baseline ''Scotland'' ''Rainfall'' = 1500
   \<and> baseline ''Scotland'' ''Sunshine'' = 1250 \<and> baseline ''England'' ''Sunshine'' = 1550"
  by (simp add: baseline_def switch_selectedParameter_def Math_random_def)

theorem baseline_without_explicit_case_witness:
  "''NorthernIreland'' \<noteq> ''Scotland'' \<and> ''NorthernIreland'' \<noteq> ''UK''
   \<and> ''NorthernIreland'' \<noteq> ''Wales'' \<and> ''NorthernIreland'' \<noteq> ''England''
   \<and> baseline ''NorthernIreland'' ''Tmax'' = 15.1
   \<and> baseline ''NorthernIreland'' ''Tmin'' = 6.8
   \<and> baseline ''NorthernIreland'' ''Tmean'' = 11.0
   \<and> baseline ''NorthernIreland'' ''Rainfall'' = 1154
   \<and> baseline ''NorthernIreland'' ''Sunshine'' = 1400"
  using baseline_without_explicit_case [of "''NorthernIreland''"]
  by simp

section \<open>Properties of the summary statistics\<close>

text \<open>
  C9. For the empty series none of the three statistics fails: \<open>latest\<close> is absent
  (\<^verbatim>\<open>undefined\<close>), \<open>average\<close> is the number 0 and \<open>trend\<close> is 0.
\<close>

theorem empty_series_statistics:
  "latest [] = None \<and> average [] = Some 0 \<and> trend [] = 0"
  by (simp add: latest_def array_get_def average_def trend_def)

text \<open>
  C7. For every non-empty series the trend is the value of the last point minus the
  value of the first point; for a series of one point that difference is 0.
\<close>

theorem trend_last_minus_first:
  assumes "data \<noteq> []"
  shows "trend data = value' (last data) - value' (hd data)"
proof (cases "length data > 1")
  case True
  with assms show ?thesis
    by (simp add: trend_def last_conv_nth hd_conv_nth)
next
  case False
  with assms obtain d where "data = [d]"
    by (cases data) auto
  then show ?thesis
    by (simp add: trend_def)
qed

theorem trend_last_minus_first_witness:
  "[\<lparr>year = 1884, value' = 3, region = ''UK'', parameter = ''Tmax''\<rparr>,
    \<lparr>year = 1885, value' = 5, region = ''UK'', parameter = ''Tmax''\<rparr>] \<noteq> []
   \<and> trend [\<lparr>year = 1884, value' = 3, region = ''UK'', parameter = ''Tmax''\<rparr>,
            \<lparr>year = 1885, value' = 5, region = ''UK'', parameter = ''Tmax''\<rparr>] = 5 - 3
   \<and> [\<lparr>year = 1884, value' = 7, region = ''UK'', parameter = ''Tmax''\<rparr>] \<noteq> []
   \<and> trend [\<lparr>year = 1884, value' = 7, region = ''UK'', parameter = ''Tmax''\<rparr>] = 0"
  using trend_last_minus_first
    [of "[\<lparr>year = 1884, value' = 3, region = ''UK'', parameter = ''Tmax''\<rparr>,
          \<lparr>year = 1885, value' = 5, region = ''UK'', parameter = ''Tmax''\<rparr>]"]
    trend_last_minus_first
    [of "[\<lparr>year = 1884, value' = 7, region = ''UK'', parameter = ''Tmax''\<rparr>]"]
  by simp

section \<open>Rounding to a double\<close>

text \<open>Rounding to an integer moves a real by at most one half.\<close>

lemma round_ties_even_error: "\<bar>of_int (round_ties_even t) - t\<bar> \<le> 1/2"
  unfolding round_ties_even_def Let_def by (auto; linarith)

text \<open>The exponent: \<open>\<lfloor>log 2 x\<rfloor> = e\<close> exactly when \<open>x\<close> lies between \<open>2 powi e\<close> and the next power.\<close>

lemma powr_powi2: "(2::real) powr real_of_int e = 2 powi e"
  by (rule powr_real_of_int') simp_all

lemma floor_log_eqI:
  assumes "2 powi e \<le> x" "x < 2 powi (e + 1)"
  shows "\<lfloor>log 2 x\<rfloor> = e"
proof -
  have "0 < (2::real) powi e" by simp
  with assms(1) have x: "0 < x" by linarith
  have "(2::real) powr (real_of_int e + 1) = 2 powi (e + 1)"
    using powr_powi2 [of "e + 1"] by simp
  with assms show ?thesis
    using floor_log_eq_powr_iff [of x 2 e] x by (simp add: powr_powi2)
qed

lemma powi_floor_log:
  assumes "0 < x"
  shows "2 powi \<lfloor>log 2 x\<rfloor> \<le> x"
proof -
  have "(2::real) powr (real_of_int \<lfloor>log 2 x\<rfloor>) \<le> x"
    using floor_log_eq_powr_iff [of x 2 "\<lfloor>log 2 x\<rfloor>"] assms by simp
  then show ?thesis by (simp add: powr_powi2)
qed

lemma floor_log_ge:
  assumes "2 powi e \<le> x"
  shows "e \<le> \<lfloor>log 2 x\<rfloor>"
proof -
  have "0 < (2::real) powi e" by simp
  with assms have x: "0 < x" by linarith
  have "(2::real) powr (real_of_int e) \<le> x"
    using assms by (simp add: powr_powi2)
  then have "real_of_int e \<le> log 2 x"
    using x by (simp add: le_log_iff)
  then show ?thesis by (simp add: le_floor_iff)
qed

text \<open>
  In the normal range and away from overflow the result is finite and differs from the
  exact one by at most the relative error \<open>1 / 2 ^ 53\<close>.
\<close>

lemma to_double_rel:
  assumes lo: "2 powi (- 1022) \<le> \<bar>x\<bar>" and hi: "\<bar>x\<bar> \<le> 2 ^ 1023"
  shows "\<exists>y. to_double x = Some y \<and> \<bar>y - x\<bar> \<le> \<bar>x\<bar> / 2 ^ 53"
proof -
  define e where "e = \<lfloor>log 2 \<bar>x\<bar>\<rfloor>"
  define q :: real where "q = 2 powi (e - 52)"
  define y where "y = of_int (round_ties_even (x / q)) * q"
  have "0 < (2::real) powi (- 1022)" by simp
  with lo have xpos: "0 < \<bar>x\<bar>" by linarith
  then have x0: "x \<noteq> 0" by simp
  from lo have "- 1022 \<le> e" unfolding e_def by (rule floor_log_ge)
  then have de: "double_exponent x = e"
    by (simp add: double_exponent_def e_def)
  have qpos: "0 < q" by (simp add: q_def)
  have "y - x = q * (of_int (round_ties_even (x / q)) - x / q)"
    using qpos by (simp add: y_def algebra_simps)
  then have "\<bar>y - x\<bar> = q * \<bar>of_int (round_ties_even (x / q)) - x / q\<bar>"
    using qpos by (simp add: abs_mult)
  also have "\<dots> \<le> q * (1/2)"
    using qpos round_ties_even_error [of "x / q"] by (intro mult_left_mono) simp_all
  also have "q * (1/2) = 2 powi e / 2 ^ 53"
    by (simp add: q_def power_int_diff)
  also have "\<dots> \<le> \<bar>x\<bar> / 2 ^ 53"
    using powi_floor_log [OF xpos] by (simp add: e_def divide_right_mono)
  finally have err: "\<bar>y - x\<bar> \<le> \<bar>x\<bar> / 2 ^ 53" .
  have "\<bar>y\<bar> \<le> \<bar>x\<bar> + \<bar>x\<bar> / 2 ^ 53" using err by linarith
  also have "\<dots> \<le> 2 ^ 1023 + 2 ^ 1023 / 2 ^ 53"
    using hi by (intro add_mono divide_right_mono) simp_all
  also have "\<dots> < (2::real) ^ 1024" by simp
  finally have "\<bar>y\<bar> < 2 ^ 1024" .
  then have "to_double x = Some y"
    using x0 by (simp add: to_double_def de Let_def y_def q_def)
  with err show ?thesis by blast
qed

text \<open>Evaluation at a known exponent, in the normal and in the subnormal range.\<close>

lemma to_double_eval:
  assumes "2 powi e \<le> \<bar>x\<bar>" "\<bar>x\<bar> < 2 powi (e + 1)" "- 1022 \<le> e"
  shows "to_double x =
    (let q = 2 powi (e - 52); y = of_int (round_ties_even (x / q)) * q
     in if \<bar>y\<bar> < 2 ^ 1024 then Some y else None)"
proof -
  have "0 < (2::real) powi e" by simp
  with assms(1) have "0 < \<bar>x\<bar>" by linarith
  then have "x \<noteq> 0" by simp
  moreover have "double_exponent x = e"
    using floor_log_eqI [OF assms(1,2)] assms(3) by (simp add: double_exponent_def)
  ultimately show ?thesis by (simp add: to_double_def)
qed

lemma to_double_eval_sub:
  assumes "x \<noteq> 0" "\<bar>x\<bar> < 2 powi (- 1022)"
  shows "to_double x =
    (let q = 2 powi (- 1074); y = of_int (round_ties_even (x / q)) * q
     in if \<bar>y\<bar> < 2 ^ 1024 then Some y else None)"
proof -
  have "log 2 \<bar>x\<bar> < real_of_int (- 1022)"
    using assms by (subst log_less_iff) (simp_all add: powr_powi2 del: of_int_minus)
  then have "\<lfloor>log 2 \<bar>x\<bar>\<rfloor> < - 1022" by (simp add: floor_less_iff)
  then have "double_exponent x = - 1022" by (simp add: double_exponent_def)
  with assms(1) show ?thesis by (simp add: to_double_def)
qed

text \<open>
  At the edges of the range the definition rounds as binary64 does: a tie between two
  subnormals goes to the even one, the largest double is \<open>2 ^ 1024 - 2 ^ 971\<close>, and half a
  spacing above it the result is no longer finite.
\<close>

lemma to_double_subnormal_tie_down: "to_double (1 / 2 ^ 1075) = Some 0"
  by (subst to_double_eval_sub) (simp_all add: round_ties_even_def power_int_minus_divide)

lemma to_double_subnormal_tie_up: "to_double (3 / 2 ^ 1075) = Some (1 / 2 ^ 1073)"
  by (subst to_double_eval_sub) (simp_all add: round_ties_even_def power_int_minus_divide)

lemma to_double_subnormal_tie_neg: "to_double (- 3 / 2 ^ 1075) = Some (- 1 / 2 ^ 1073)"
  by (subst to_double_eval_sub) (simp_all add: round_ties_even_def power_int_minus_divide)

lemma to_double_overflow: "to_double (2 ^ 1024 - 2 ^ 970) = None"
  by (subst to_double_eval [where e = 1023]) (simp_all add: round_ties_even_def)

lemma to_double_largest: "to_double (2 ^ 1024 - 2 ^ 971) = Some (2 ^ 1024 - 2 ^ 971)"
  by (subst to_double_eval [where e = 1023]) (simp_all add: round_ties_even_def)

lemma to_double_below_overflow: "to_double (2 ^ 1024 - 2 ^ 970 - 1) = Some (2 ^ 1024 - 2 ^ 971)"
  by (subst to_double_eval [where e = 1023]) (simp_all add: round_ties_even_def)

text \<open>Powers of \<open>1 - u\<close> and \<open>1 + u\<close> stay within a factor 2 while \<open>n * u \<le> 1/2\<close>.\<close>

lemma pow_one_minus_ge_half:
  fixes u :: real
  assumes "0 \<le> u" "real n * u \<le> 1/2"
  shows "1/2 \<le> (1 - u) ^ n"
proof (cases "n = 0")
  case True
  then show ?thesis by simp
next
  case False
  then have "1 \<le> real n" by simp
  with assms have "u \<le> 1/2"
    by (metis dual_order.trans mult_left_mono mult.commute mult.right_neutral)
  then have "1 + real n * (- u) \<le> (1 + (- u)) ^ n"
    by (intro Bernoulli_inequality) simp
  with assms(2) show ?thesis by simp
qed

lemma pow_one_plus_le_two:
  fixes u :: real
  assumes "0 \<le> u" "real n * u \<le> 1/2"
  shows "(1 + u) ^ n \<le> 2"
proof (cases "n = 0")
  case True
  then show ?thesis by simp
next
  case False
  then have "1 \<le> real n" by simp
  with assms have u: "u \<le> 1/2"
    by (metis dual_order.trans mult_left_mono mult.commute mult.right_neutral)
  have h: "1/2 \<le> (1 - u) ^ n" using assms by (rule pow_one_minus_ge_half)
  have "(1 + u) * (1 - u) = 1 - u * u" by (simp add: algebra_simps)
  moreover have "0 \<le> u * u" using assms(1) by simp
  moreover have "u * u \<le> 1" using assms(1) u by (simp add: mult_le_one)
  ultimately have "0 \<le> (1 + u) * (1 - u)" "(1 + u) * (1 - u) \<le> 1" by simp_all
  then have "((1 + u) * (1 - u)) ^ n \<le> 1" by (rule power_le_one)
  then have p: "(1 + u) ^ n * (1 - u) ^ n \<le> 1" by (simp add: power_mult_distrib)
  have "0 \<le> (1 + u) ^ n" using assms(1) by simp
  then have "(1 + u) ^ n * (1/2) \<le> (1 + u) ^ n * (1 - u) ^ n"
    using h by (rule mult_left_mono [rotated])
  with p show ?thesis by simp
qed

text \<open>
  A running sum of non-negative numbers in which every addition is rounded with relative
  error \<open>u\<close>: after \<open>k\<close> additions it is within the factors \<open>(1 - u) ^ k\<close> and
  \<open>(1 + u) ^ k\<close> of the exact sum \<open>t\<close>, as long as no partial sum leaves the range in which
  the rounding is that accurate.
\<close>

lemma fold_rounded:
  fixes rd :: "real \<Rightarrow> real option" and u lo hi L U :: real and N :: nat
  assumes rd: "\<And>z. z = 0 \<or> lo \<le> z \<Longrightarrow> z \<le> hi \<Longrightarrow>
                 \<exists>y. rd z = Some y \<and> z * (1 - u) \<le> y \<and> y \<le> z * (1 + u)"
    and u: "0 \<le> u" "u \<le> 1"
    and lo: "lo \<le> L * (1 - u) ^ N"
    and hi: "real N * U * (1 + u) ^ N \<le> hi"
    and L: "0 \<le> L" and U: "0 \<le> U"
  shows "0 \<le> t \<Longrightarrow> t = 0 \<or> L \<le> t \<Longrightarrow> t \<le> real k * U \<Longrightarrow>
         t * (1 - u) ^ k \<le> a \<Longrightarrow> a \<le> t * (1 + u) ^ k \<Longrightarrow>
         \<forall>x \<in> set xs. x = 0 \<or> (L \<le> x \<and> x \<le> U) \<Longrightarrow> k + length xs \<le> N \<Longrightarrow>
         \<exists>s. foldl (\<lambda>acc x. case acc of None \<Rightarrow> None | Some b \<Rightarrow> rd (b + x)) (Some a) xs = Some s
            \<and> (t + sum_list xs) * (1 - u) ^ (k + length xs) \<le> s
            \<and> s \<le> (t + sum_list xs) * (1 + u) ^ (k + length xs)"
proof (induction xs arbitrary: t a k)
  case Nil
  then show ?case by simp
next
  case (Cons x xs)
  from Cons.prems(6) have xr: "x = 0 \<or> (L \<le> x \<and> x \<le> U)" by simp
  with L have x0: "0 \<le> x" by auto
  from xr U have xU: "x \<le> U" by auto
  from Cons.prems(7) have kN: "Suc k \<le> N" by simp
  have c0: "0 \<le> 1 - u" and c1: "1 - u \<le> 1" using u by simp_all
  have d1: "1 \<le> 1 + u" using u by simp
  have p0: "0 \<le> (1 - u) ^ k" using c0 by simp
  have p1: "(1 - u) ^ k \<le> 1" using c0 c1 by (rule power_le_one)
  have q1: "1 \<le> (1 + u) ^ k" using d1 by (rule one_le_power)
  define t' where "t' = t + x"
  define z where "z = a + x"
  have t'0: "0 \<le> t'" using Cons.prems(1) x0 by (simp add: t'_def)
  have t'L: "t' = 0 \<or> L \<le> t'"
    using Cons.prems(1,2) x0 xr by (auto simp: t'_def)
  have t'U: "t' \<le> real (Suc k) * U"
    using Cons.prems(3) xU by (simp add: t'_def algebra_simps)
  have "x * (1 - u) ^ k \<le> x" using x0 p1 by (simp add: mult_left_le)
  with Cons.prems(4) have zlo: "t' * (1 - u) ^ k \<le> z"
    by (simp add: t'_def z_def algebra_simps)
  have "x \<le> x * (1 + u) ^ k" using x0 q1 by (simp add: mult_le_cancel_left1)
  with Cons.prems(5) have zhi: "z \<le> t' * (1 + u) ^ k"
    by (simp add: t'_def z_def algebra_simps)
  have zrange_lo: "z = 0 \<or> lo \<le> z"
  proof (cases "t' = 0")
    case True
    with zlo zhi show ?thesis by simp
  next
    case False
    with t'L have "L \<le> t'" by simp
    have "(1 - u) ^ N \<le> (1 - u) ^ k"
      using kN c0 c1 by (intro power_decreasing) simp_all
    then have "L * (1 - u) ^ N \<le> L * (1 - u) ^ k"
      using L by (rule mult_left_mono)
    also have "\<dots> \<le> t' * (1 - u) ^ k"
      using \<open>L \<le> t'\<close> p0 by (rule mult_right_mono)
    finally show ?thesis using lo zlo by linarith
  qed
  have zrange_hi: "z \<le> hi"
  proof -
    have "(1 + u) ^ k \<le> (1 + u) ^ N"
      using kN d1 by (intro power_increasing) simp_all
    moreover have "t' \<le> real N * U"
    proof -
      have "real (Suc k) * U \<le> real N * U"
        using kN U by (intro mult_right_mono) simp_all
      with t'U show ?thesis by linarith
    qed
    moreover have "0 \<le> (1 + u) ^ k" using q1 by linarith
    moreover have "0 \<le> real N * U" using U by simp
    ultimately have "t' * (1 + u) ^ k \<le> real N * U * (1 + u) ^ N"
      by (intro mult_mono) simp_all
    with zhi hi show ?thesis by linarith
  qed
  from rd [OF zrange_lo zrange_hi] obtain y
    where y: "rd z = Some y" and ylo: "z * (1 - u) \<le> y" and yhi: "y \<le> z * (1 + u)"
    by blast
  have "t' * (1 - u) ^ k * (1 - u) \<le> z * (1 - u)"
    using zlo c0 by (rule mult_right_mono)
  with ylo have ylo': "t' * (1 - u) ^ Suc k \<le> y" by (simp add: mult_ac)
  have "z * (1 + u) \<le> t' * (1 + u) ^ k * (1 + u)"
    using zhi d1 by (intro mult_right_mono) simp_all
  with yhi have yhi': "y \<le> t' * (1 + u) ^ Suc k" by (simp add: mult_ac)
  from Cons.prems(6) have rest: "\<forall>x \<in> set xs. x = 0 \<or> (L \<le> x \<and> x \<le> U)" by simp
  from Cons.prems(7) have len: "Suc k + length xs \<le> N" by simp
  from Cons.IH [OF t'0 t'L t'U ylo' yhi' rest len] obtain s
    where "foldl (\<lambda>acc x. case acc of None \<Rightarrow> None | Some b \<Rightarrow> rd (b + x)) (Some y) xs = Some s"
      and "(t' + sum_list xs) * (1 - u) ^ (Suc k + length xs) \<le> s"
      and "s \<le> (t' + sum_list xs) * (1 + u) ^ (Suc k + length xs)"
    by blast
  then show ?case
    using y by (simp add: t'_def z_def add.assoc)
qed

lemma to_double_step:
  assumes "z = 0 \<or> 1 / 2 ^ 1022 \<le> z" and "z \<le> 2 ^ 1023"
  shows "\<exists>y. to_double z = Some y \<and> z * (1 - 1 / 2 ^ 53) \<le> y \<and> y \<le> z * (1 + 1 / 2 ^ 53)"
proof (cases "z = 0")
  case True
  then show ?thesis by (simp add: to_double_def)
next
  case False
  with assms(1) have lo: "1 / 2 ^ 1022 \<le> z" by simp
  have "(0::real) < 1 / 2 ^ 1022" by simp
  with lo have zpos: "0 < z" by linarith
  have "(2::real) powi (- 1022) = 1 / 2 ^ 1022"
    by (simp add: power_int_minus_divide)
  with lo zpos have l: "2 powi (- 1022) \<le> \<bar>z\<bar>" by simp
  from assms(2) zpos have h: "\<bar>z\<bar> \<le> 2 ^ 1023" by simp
  from to_double_rel [OF l h] obtain y
    where y: "to_double z = Some y" and e: "\<bar>y - z\<bar> \<le> \<bar>z\<bar> / 2 ^ 53"
    by blast
  from zpos have az: "\<bar>z\<bar> = z" by simp
  from e have "z - z / 2 ^ 53 \<le> y" "y \<le> z + z / 2 ^ 53"
    unfolding az by linarith+
  then have "z * (1 - 1 / 2 ^ 53) \<le> y" "y \<le> z * (1 + 1 / 2 ^ 53)"
    by (simp_all add: algebra_simps)
  with y show ?thesis by blast
qed

text \<open>Exact sums of numbers that are 0 or at least \<open>L\<close>, and of numbers within bounds.\<close>

lemma sum_list_zero_or_ge:
  fixes L :: real
  assumes "0 \<le> L"
  shows "\<forall>x \<in> set xs. x = 0 \<or> L \<le> x \<Longrightarrow> sum_list xs = 0 \<or> L \<le> sum_list xs"
  using assms by (induction xs) auto

lemma sum_list_lower:
  fixes m :: real
  shows "\<forall>x \<in> set xs. m \<le> x \<Longrightarrow> real (length xs) * m \<le> sum_list xs"
  by (induction xs) (auto simp: algebra_simps)

lemma sum_list_upper:
  fixes M :: real
  shows "\<forall>x \<in> set xs. x \<le> M \<Longrightarrow> sum_list xs \<le> real (length xs) * M"
  by (induction xs) (auto simp: algebra_simps)

lemma foldl_js_add:
  "foldl (\<lambda>sum d. js_add sum (value' d)) a data =
   foldl (\<lambda>acc x. case acc of None \<Rightarrow> None | Some b \<Rightarrow> to_double (b + x)) a (map value' data)"
  by (induction data arbitrary: a) (simp_all add: js_add_def)

text \<open>
  The double nearest to one tenth, its running sums, and the third of the last sum; and
  the sums of 3, 7 and 5.
\<close>

lemma to_double_tenth:
  "to_double (3602879701896397 / 36028797018963968)
     = Some (3602879701896397 / 36028797018963968)"
  by (subst to_double_eval [where e = "- 4"]) (simp_all add: round_ties_even_def)

lemma to_double_two_tenths:
  "to_double (3602879701896397 / 18014398509481984)
     = Some (3602879701896397 / 18014398509481984)"
  by (subst to_double_eval [where e = "- 3"]) (simp_all add: round_ties_even_def)

lemma to_double_three_tenths:
  "to_double (10808639105689191 / 36028797018963968)
     = Some (1351079888211149 / 4503599627370496)"
  by (subst to_double_eval [where e = "- 2"]) (simp_all add: round_ties_even_def)

lemma to_double_third_of_sum:
  "to_double (1351079888211149 / 13510798882111488)
     = Some (7205759403792795 / 72057594037927936)"
  by (subst to_double_eval [where e = "- 4"]) (simp_all add: round_ties_even_def)

lemma to_double_3: "to_double 3 = Some 3"
  by (subst to_double_eval [where e = 1]) (simp_all add: round_ties_even_def)

lemma to_double_10: "to_double 10 = Some 10"
  by (subst to_double_eval [where e = 3]) (simp_all add: round_ties_even_def)

lemma to_double_15: "to_double 15 = Some 15"
  by (subst to_double_eval [where e = 3]) (simp_all add: round_ties_even_def)

lemma to_double_5: "to_double 5 = Some 5"
  by (subst to_double_eval [where e = 2]) (simp_all add: round_ties_even_def)

lemma average_3_7_5: "average
       [\<lparr>year = 1884, value' = 3, region = ''UK'', parameter = ''Tmax''\<rparr>,
        \<lparr>year = 1885, value' = 7, region = ''UK'', parameter = ''Tmax''\<rparr>,
        \<lparr>year = 1886, value' = 5, region = ''UK'', parameter = ''Tmax''\<rparr>] = Some 5"
  by (simp add: average_def js_add_def js_div_def to_double_3 to_double_10 to_double_15 to_double_5)

text \<open>
  C8, as stated, fails on doubles. The series of three points whose value is the double
  nearest to 0.1 has the sums 0.1, 0.2 and 0.30000000000000004, and the third of the last
  one rounds to 0.10000000000000002: the average is above the maximum 0.1.
\<close>

theorem average_above_max_counterexample:
  "to_double (3602879701896397 / 36028797018963968)
     = Some (3602879701896397 / 36028797018963968)
   \<and> average
       [\<lparr>year = 1884, value' = 3602879701896397 / 36028797018963968,
         region = ''UK'', parameter = ''Tmax''\<rparr>,
        \<lparr>year = 1885, value' = 3602879701896397 / 36028797018963968,
         region = ''UK'', parameter = ''Tmax''\<rparr>,
        \<lparr>year = 1886, value' = 3602879701896397 / 36028797018963968,
         region = ''UK'', parameter = ''Tmax''\<rparr>]
     = Some (7205759403792795 / 72057594037927936)
   \<and> Max (value' ` set
       [\<lparr>year = 1884, value' = 3602879701896397 / 36028797018963968,
         region = ''UK'', parameter = ''Tmax''\<rparr>,
        \<lparr>year = 1885, value' = 3602879701896397 / 36028797018963968,
         region = ''UK'', parameter = ''Tmax''\<rparr>,
        \<lparr>year = 1886, value' = 3602879701896397 / 36028797018963968,
         region = ''UK'', parameter = ''Tmax''\<rparr>])
     = 3602879701896397 / 36028797018963968
   \<and> (3602879701896397 / 36028797018963968 :: real) < 7205759403792795 / 72057594037927936"
  by (simp add: average_def js_add_def js_div_def to_double_tenth to_double_two_tenths to_double_three_tenths to_double_third_of_sum)

text \<open>
  C8, amended. For every non-empty series of at most \<open>2 ^ 20\<close> points whose values are 0
  or lie between \<open>1 / 2 ^ 1000\<close> and \<open>2 ^ 1000\<close> (so that nothing underflows or overflows),
  the average is a finite number between the minimum times \<open>(1 - 1 / 2 ^ 53) ^ (n + 1)\<close>
  and the maximum times \<open>(1 + 1 / 2 ^ 53) ^ (n + 1)\<close>, for \<open>n\<close> points: it lies between the
  minimum and the maximum up to the rounding of the \<open>n\<close> additions and the division.
\<close>

theorem average_within_rounding:
  assumes ne: "data \<noteq> []" and len: "length data \<le> 2 ^ 20"
    and vals: "\<forall>d \<in> set data. value' d = 0 \<or> (1 / 2 ^ 1000 \<le> value' d \<and> value' d \<le> 2 ^ 1000)"
  shows "\<exists>a. average data = Some a
       \<and> Min (value' ` set data) * (1 - 1 / 2 ^ 53) ^ (length data + 1) \<le> a
       \<and> a \<le> Max (value' ` set data) * (1 + 1 / 2 ^ 53) ^ (length data + 1)"
proof -
  define u :: real where "u = 1 / 2 ^ 53"
  define L :: real where "L = 1 / 2 ^ 1000"
  define U :: real where "U = 2 ^ 1000"
  define n where "n = length data"
  define xs where "xs = map value' data"
  define T where "T = sum_list xs"
  have u0: "0 \<le> u" and u1: "u \<le> 1" by (simp_all add: u_def)
  have L0: "0 \<le> L" and U0: "0 \<le> U" by (simp_all add: L_def U_def)
  from ne have n1: "1 \<le> n" by (cases data) (simp_all add: n_def)
  from len have nN: "real n \<le> 2 ^ 20"
    unfolding n_def by (metis of_nat_le_iff of_nat_numeral of_nat_power)
  have "real n * u \<le> 2 ^ 20 * u" using nN u0 by (rule mult_right_mono)
  also have "\<dots> \<le> 1/2" by (simp add: u_def)
  finally have nu: "real n * u \<le> 1/2" .
  have plo: "1/2 \<le> (1 - u) ^ n" using u0 nu by (rule pow_one_minus_ge_half)
  have phi: "(1 + u) ^ n \<le> 2" using u0 nu by (rule pow_one_plus_le_two)
  have xsr: "\<forall>x \<in> set xs. x = 0 \<or> (L \<le> x \<and> x \<le> U)"
    using vals by (simp add: xs_def L_def U_def)
  have lenxs: "length xs = n" by (simp add: xs_def n_def)
  have lo: "1 / 2 ^ 1022 \<le> L * (1 - u) ^ n"
  proof -
    have "L * (1/2) \<le> L * (1 - u) ^ n" using plo L0 by (rule mult_left_mono)
    moreover have "(1::real) / 2 ^ 1022 \<le> L * (1/2)" by (simp add: L_def)
    ultimately show ?thesis by linarith
  qed
  have pnn: "0 \<le> (1 + u) ^ n" using u0 by simp
  have nU: "real n * U * (1 + u) ^ n \<le> 2 ^ 20 * U * 2"
    using nN phi U0 pnn by (intro mult_mono) simp_all
  have hi: "real n * U * (1 + u) ^ n \<le> 2 ^ 1023"
  proof -
    have "(2::real) ^ 20 * U * 2 \<le> 2 ^ 1023" by (simp add: U_def)
    with nU show ?thesis by linarith
  qed
  have step: "\<And>z. z = 0 \<or> 1 / 2 ^ 1022 \<le> z \<Longrightarrow> z \<le> 2 ^ 1023 \<Longrightarrow>
                 \<exists>y. to_double z = Some y \<and> z * (1 - u) \<le> y \<and> y \<le> z * (1 + u)"
    unfolding u_def by (rule to_double_step)
  have "\<exists>s. foldl (\<lambda>acc x. case acc of None \<Rightarrow> None | Some b \<Rightarrow> to_double (b + x)) (Some 0) xs = Some s
            \<and> (0 + sum_list xs) * (1 - u) ^ (0 + length xs) \<le> s
            \<and> s \<le> (0 + sum_list xs) * (1 + u) ^ (0 + length xs)"
    by (rule fold_rounded [where lo = "1 / 2 ^ 1022" and hi = "2 ^ 1023" and L = L and U = U
          and N = n, OF step u0 u1 lo hi L0 U0])
       (simp_all add: xsr lenxs)
  then obtain S where S: "foldl (\<lambda>sum d. js_add sum (value' d)) (Some 0) data = Some S"
    and Slo: "T * (1 - u) ^ n \<le> S" and Shi: "S \<le> T * (1 + u) ^ n"
    by (auto simp: foldl_js_add xs_def [symmetric] T_def lenxs)
  define z where "z = S / real n"
  define mn where "mn = Min (value' ` set data)"
  define mx where "mx = Max (value' ` set data)"
  from n1 have npos: "0 < real n" by simp
  have c0: "0 \<le> 1 - u" using u1 by simp
  have d0: "0 \<le> 1 + u" using u0 by simp
  have pn0: "0 \<le> (1 - u) ^ n" using c0 by simp
  have xs0: "\<forall>x \<in> set xs. 0 \<le> x" using xsr L0 by auto
  then have T0: "0 \<le> T" unfolding T_def by (simp add: sum_list_nonneg)
  have TL: "T = 0 \<or> L \<le> T"
    unfolding T_def using L0 xsr by (intro sum_list_zero_or_ge) auto
  have TU: "T \<le> real n * U"
    unfolding T_def lenxs [symmetric] using xsr U0 by (intro sum_list_upper) auto
  have S0: "0 \<le> S"
  proof -
    have "0 \<le> T * (1 - u) ^ n" using T0 pn0 by simp
    with Slo show ?thesis by linarith
  qed
  have zlo: "z = 0 \<or> 1 / 2 ^ 1022 \<le> z"
  proof (cases "T = 0")
    case True
    with Slo Shi have "S = 0" by simp
    then show ?thesis by (simp add: z_def)
  next
    case False
    with TL have "L \<le> T" by simp
    then have "L * (1/2) \<le> T * (1 - u) ^ n"
      using plo L0 by (intro mult_mono) simp_all
    with Slo have a: "L * (1/2) \<le> S" by linarith
    have "S / 2 ^ 20 \<le> S / real n"
      using S0 npos nN by (intro divide_left_mono) simp_all
    moreover have "L * (1/2) / 2 ^ 20 \<le> S / 2 ^ 20"
      using a by (rule divide_right_mono) simp
    moreover have "(1::real) / 2 ^ 1022 \<le> L * (1/2) / 2 ^ 20"
      by (simp add: L_def)
    ultimately show ?thesis unfolding z_def by linarith
  qed
  have zhi: "z \<le> 2 ^ 1023"
  proof -
    have "T * (1 + u) ^ n \<le> real n * U * (1 + u) ^ n"
      using TU pnn by (rule mult_right_mono)
    with Shi hi have "S \<le> 2 ^ 1023" by linarith
    moreover have "S / real n \<le> S"
      using S0 n1 by (simp add: divide_le_eq_1 mult_le_cancel_left1 le_divide_eq pos_divide_le_eq)
    ultimately show ?thesis unfolding z_def by linarith
  qed
  from step [OF zlo zhi] obtain a
    where a: "to_double z = Some a" and alo: "z * (1 - u) \<le> a" and ahi: "a \<le> z * (1 + u)"
    by blast
  have avg: "average data = Some a"
    using ne a S by (simp add: average_def js_div_def z_def n_def)
  have fin: "finite (value' ` set data)" and nonempty: "value' ` set data \<noteq> {}"
    using ne by simp_all
  have "real (length xs) * mn \<le> sum_list xs"
    by (rule sum_list_lower) (simp add: xs_def mn_def)
  then have Tmn: "real n * mn \<le> T" by (simp add: lenxs T_def)
  have "sum_list xs \<le> real (length xs) * mx"
    by (rule sum_list_upper) (simp add: xs_def mx_def)
  then have Tmx: "T \<le> real n * mx" by (simp add: lenxs T_def)
  have "real n * mn * (1 - u) ^ n \<le> T * (1 - u) ^ n"
    using Tmn pn0 by (rule mult_right_mono)
  with Slo have "real n * (mn * (1 - u) ^ n) \<le> S" by (simp add: mult.assoc)
  then have zmn: "mn * (1 - u) ^ n \<le> z"
    using npos by (simp add: z_def pos_le_divide_eq mult.commute)
  have "T * (1 + u) ^ n \<le> real n * mx * (1 + u) ^ n"
    using Tmx pnn by (rule mult_right_mono)
  with Shi have "S \<le> real n * (mx * (1 + u) ^ n)" by (simp add: mult.assoc)
  then have zmx: "z \<le> mx * (1 + u) ^ n"
    using npos by (simp add: z_def pos_divide_le_eq mult.commute)
  have "mn * (1 - u) ^ n * (1 - u) \<le> z * (1 - u)"
    using zmn c0 by (rule mult_right_mono)
  with alo have r1: "mn * (1 - u) ^ (n + 1) \<le> a" by (simp add: mult_ac)
  have "z * (1 + u) \<le> mx * (1 + u) ^ n * (1 + u)"
    using zmx d0 by (rule mult_right_mono)
  with ahi have r2: "a \<le> mx * (1 + u) ^ (n + 1)" by (simp add: mult_ac)
  from avg r1 r2 show ?thesis
    unfolding mn_def mx_def n_def u_def by blast
qed

theorem average_within_rounding_witness:
  "[\<lparr>year = 1884, value' = 3, region = ''UK'', parameter = ''Tmax''\<rparr>,
    \<lparr>year = 1885, value' = 7, region = ''UK'', parameter = ''Tmax''\<rparr>,
    \<lparr>year = 1886, value' = 5, region = ''UK'', parameter = ''Tmax''\<rparr>] \<noteq> []
   \<and> length [\<lparr>year = 1884, value' = 3, region = ''UK'', parameter = ''Tmax''\<rparr>,
        \<lparr>year = 1885, value' = 7, region = ''UK'', parameter = ''Tmax''\<rparr>,
        \<lparr>year = 1886, value' = 5, region = ''UK'', parameter = ''Tmax''\<rparr>] \<le> 2 ^ 20
   \<and> (1::real) / 2 ^ 1000 \<le> 3 \<and> (7::real) \<le> 2 ^ 1000
   \<and> average [\<lparr>year = 1884, value' = 3, region = ''UK'', parameter = ''Tmax''\<rparr>,
        \<lparr>year = 1885, value' = 7, region = ''UK'', parameter = ''Tmax''\<rparr>,
        \<lparr>year = 1886, value' = 5, region = ''UK'', parameter = ''Tmax''\<rparr>] = Some 5
   \<and> 3 * (1 - 1 / 2 ^ 53) ^ 4 \<le> (5::real) \<and> (5::real) \<le> 7 * (1 + 1 / 2 ^ 53) ^ 4"
proof -
  let ?data = "[\<lparr>year = 1884, value' = 3, region = ''UK'', parameter = ''Tmax''\<rparr>,
        \<lparr>year = 1885, value' = 7, region = ''UK'', parameter = ''Tmax''\<rparr>,
        \<lparr>year = 1886, value' = 5, region = ''UK'', parameter = ''Tmax''\<rparr>]"
  have h1: "?data \<noteq> []" by simp
  have h2: "length ?data \<le> 2 ^ 20" by simp
  have h3: "\<forall>d \<in> set ?data.
              value' d = 0 \<or> (1 / 2 ^ 1000 \<le> value' d \<and> value' d \<le> 2 ^ 1000)"
    by simp
  have mn: "Min (value' ` set ?data) = 3" and mx: "Max (value' ` set ?data) = 7"
    by simp_all
  have n: "length ?data + 1 = 4" by simp
  from average_within_rounding [OF h1 h2 h3] obtain a
    where a: "average ?data = Some a"
      and lo: "Min (value' ` set ?data) * (1 - 1 / 2 ^ 53) ^ (length ?data + 1) \<le> a"
      and hi: "a \<le> Max (value' ` set ?data) * (1 + 1 / 2 ^ 53) ^ (length ?data + 1)"
    by blast
  from a have a5: "a = 5" unfolding average_3_7_5 by simp
  from lo have lo': "3 * (1 - 1 / 2 ^ 53) ^ 4 \<le> (5::real)"
    unfolding mn n a5 .
  from hi have hi': "(5::real) \<le> 7 * (1 + 1 / 2 ^ 53) ^ 4"
    unfolding mx n a5 .
  have r: "(1::real) / 2 ^ 1000 \<le> 3" "(7::real) \<le> 2 ^ 1000" by simp_all
  from h1 h2 r average_3_7_5 lo' hi' show ?thesis by blast
qed

end
